theory Spec2Isabelle
  imports Main "HOL-Library.Sublist"
begin

section \<open>JavaScript strings and values\<close>

text \<open>
  The wishlist router (\<open>routes/wishlist\<close>, second part of \<open>src/server.js\<close>) is
  embedded function by function. Strings are \<open>string\<close>; the three string methods the
  router calls are written out.
\<close>

definition startsWith :: "string \<Rightarrow> string \<Rightarrow> bool" where
  "startsWith s p = prefix p s"

fun str_includes :: "string \<Rightarrow> string \<Rightarrow> bool" where
  "str_includes [] p = (p = [])"
| "str_includes (c # cs) p = (prefix p (c # cs) \<or> str_includes cs p)"

text \<open>\<open>s.replace(p, r)\<close> with a string pattern replaces the first occurrence only.\<close>

fun replace :: "string \<Rightarrow> string \<Rightarrow> string \<Rightarrow> string" where
  "replace [] p r = (if p = [] then r else [])"
| "replace (c # cs) p r =
     (if prefix p (c # cs) then r @ drop (length p) (c # cs) else c # replace cs p r)"

fun string_of_nat :: "nat \<Rightarrow> string" where
  "string_of_nat n =
     (if n < 10 then [char_of (48 + n)]
      else string_of_nat (n div 10) @ [char_of (48 + n mod 10)])"

declare string_of_nat.simps [simp del]

text \<open>
  A JSON value as \<open>express.json()\<close> and \<open>JSON.parse\<close> deliver it; \<open>Undefined\<close> is what
  reading an absent property gives. A number is held as the text \<open>String(n)\<close> gives for it
  (\<open>9\<close> as \<open>9\<close>, \<open>1.5\<close> as \<open>1.5\<close>, \<open>1e21\<close> as \<open>1e+21\<close>, \<open>-0\<close> as \<open>0\<close>): two numbers of
  JSON are the same number exactly when these texts are equal.
\<close>

datatype jsval =
    Undefined
  | Null
  | Str string
  | Num string
  | Bool bool
  | Arr "jsval list"
  | Obj "(string \<times> jsval) list"

text \<open>\<open>xs.join(',')\<close> on texts.\<close>

fun join_comma :: "string list \<Rightarrow> string" where
  "join_comma [] = []"
| "join_comma [x] = x"
| "join_comma (x # y # ys) = x @ '','' @ join_comma (y # ys)"

text \<open>
  The text a value contributes to a template literal, \<open>`${v}`\<close>: an array joins the texts of
  its elements with commas, \<open>null\<close> and \<open>undefined\<close> elements contributing nothing; an
  object gives \<open>[object Object]\<close>.
\<close>

fun text_of :: "jsval \<Rightarrow> string" where
  "text_of Undefined = ''undefined''"
| "text_of Null = ''null''"
| "text_of (Str s) = s"
| "text_of (Num n) = n"
| "text_of (Bool b) = (if b then ''true'' else ''false'')"
| "text_of (Arr xs) =
     join_comma (map (\<lambda>x. if x = Undefined \<or> x = Null then [] else text_of x) xs)"
| "text_of (Obj ps) = ''[object Object]''"

text \<open>\<open>!v\<close> is false exactly for these: a non-empty string, a number other than zero,
  \<open>true\<close>, an array, an object.\<close>

fun is_truthy :: "jsval \<Rightarrow> bool" where
  "is_truthy Undefined = False"
| "is_truthy Null = False"
| "is_truthy (Str s) = (s \<noteq> [])"
| "is_truthy (Num n) = (n \<noteq> ''0'')"
| "is_truthy (Bool b) = b"
| "is_truthy (Arr xs) = True"
| "is_truthy (Obj ps) = True"

text \<open>
  \<open>a === b\<close> for two values that were read from different JSON texts, as a stored entry's
  id and a field of the request body are: primitives are compared by type and value, so
  a string never equals a number; an array or object is a reference of its own and equals
  no other value.
\<close>

fun is_primitive :: "jsval \<Rightarrow> bool" where
  "is_primitive (Arr xs) = False"
| "is_primitive (Obj ps) = False"
| "is_primitive v = True"

definition strict_equal :: "jsval \<Rightarrow> jsval \<Rightarrow> bool" where
  "strict_equal a b = (is_primitive a \<and> a = b)"

text \<open>An \<open>Error\<close> object; only its message is ever inspected.\<close>

datatype js_error = JsError (message: string)

section \<open>Data model\<close>

text \<open>
  The objects built by \<open>getProductDetails\<close> (\<open>{id, handle, title}\<close>), which is also the
  shape of a node of the product query.
\<close>

record product =
  product_id :: jsval
  product_handle :: jsval
  product_title :: jsval

text \<open>A wishlist entry: the product object spread, plus \<open>addedAt\<close> and \<open>addedFrom\<close>.\<close>

record entry =
  entry_id :: jsval
  entry_handle :: jsval
  entry_title :: jsval
  addedAt :: jsval
  addedFrom :: jsval

type_synonym wishlist = "entry list"

text \<open>
  The text held in the metafield's \<open>value\<close>: either the JSON text of an array of entries,
  or text that \<open>JSON.parse\<close> rejects. \<open>JSON.stringify\<close> omits absent properties and
  \<open>JSON.parse\<close> reads them back as absent, so an array of entries survives the round trip.
  The message of the \<open>SyntaxError\<close> depends on the engine; the router never inspects it.
\<close>

datatype json_text = NotJson string | JsonArray wishlist

definition JSON_stringify :: "wishlist \<Rightarrow> json_text" where
  "JSON_stringify w = JsonArray w"

fun JSON_parse :: "json_text \<Rightarrow> js_error + wishlist" where
  "JSON_parse (NotJson t) = Inl (JsError (''Unexpected token in JSON: '' @ t))"
| "JSON_parse (JsonArray w) = Inr w"

section \<open>The upstream store\<close>

text \<open>What \<open>axios.post\<close> to the GraphQL endpoint yields: a rejection, a body with
  \<open>errors\<close>, or a body whose \<open>data\<close> is returned.\<close>

datatype 'd axios_outcome = AxiosRejected string | GqlErrors string | GqlData 'd

record edge_node =
  node_namespace :: string
  node_key :: string
  node_value :: json_text

text \<open>\<open>data.customer\<close>: \<open>null\<close>, or the customer with its metafield edges.\<close>

type_synonym customer_data = "edge_node list option"

text \<open>\<open>data.nodes\<close>: one element per requested id, \<open>null\<close> for an id that resolves to nothing.\<close>

type_synonym products_data = "product option list"

text \<open>\<open>data.metafieldsSet\<close>: \<open>null\<close>, or the payload with its \<open>userErrors\<close> messages
  (which may themselves be \<open>null\<close>).\<close>

datatype set_data = NoPayload | Payload "string list option"

record metafields_input =
  in_ownerId :: string
  in_namespace :: string
  in_key :: string
  in_value :: json_text
  in_type :: string

record rest_metafield =
  rest_id :: nat
  rest_namespace :: string
  rest_key :: string

text \<open>The body of the list response: \<open>.json()\<close> throws a \<open>SyntaxError\<close> with the given
  message, or yields an object whose \<open>metafields\<close> may be absent.\<close>

datatype get_body = GetNotJson string | GetJson "rest_metafield list option"

datatype get_outcome = GetRejected string | GetResponse bool get_body

record rest_payload =
  out_namespace :: string
  out_key :: string
  out_value :: json_text
  out_type :: string

datatype rest_method = PUT nat | POST

text \<open>The response to the write: \<open>ok\<close>, \<open>status\<close>, the body as \<open>text()\<close>, and the message
  of the \<open>SyntaxError\<close> of \<open>.json()\<close> when the body is not JSON.\<close>

record write_response =
  write_ok :: bool
  write_status :: nat
  write_text :: string
  write_json_error :: "string option"

datatype write_outcome = WriteRejected string | WriteResponse write_response

text \<open>
  The upstream answers each request from its own state \<open>'w\<close>, which it may change: the
  two GraphQL queries, the \<open>metafieldsSet\<close> mutation, and the two REST requests
  (list the customer's metafields; create or update one).
\<close>

record 'w remote =
  post_getCustomer :: "string \<Rightarrow> 'w \<Rightarrow> customer_data axios_outcome \<times> 'w"
  post_getProducts :: "string list \<Rightarrow> 'w \<Rightarrow> products_data axios_outcome \<times> 'w"
  post_metafieldsSet :: "metafields_input \<Rightarrow> 'w \<Rightarrow> set_data axios_outcome \<times> 'w"
  fetch_list :: "string \<Rightarrow> 'w \<Rightarrow> get_outcome \<times> 'w"
  fetch_write :: "rest_method \<Rightarrow> string \<Rightarrow> rest_payload \<Rightarrow> 'w \<Rightarrow> write_outcome \<times> 'w"

text \<open>Every request sent upstream is recorded, in order.\<close>

datatype call =
    GraphQL_getCustomer string
  | GraphQL_getProducts "string list"
  | GraphQL_metafieldsSet metafields_input
  | REST_GET string
  | REST_PUT string nat rest_payload
  | REST_POST string rest_payload

fun is_write :: "call \<Rightarrow> bool" where
  "is_write (GraphQL_metafieldsSet _) = True"
| "is_write (REST_PUT _ _ _) = True"
| "is_write (REST_POST _ _) = True"
| "is_write _ = False"

section \<open>Asynchronous code as state passing with exceptions\<close>

type_synonym 'w st = "'w \<times> call list"

type_synonym ('w, 'a) io = "'w st \<Rightarrow> (js_error + 'a) \<times> 'w st"

definition return :: "'a \<Rightarrow> ('w, 'a) io" where
  "return a s = (Inr a, s)"

definition throw :: "js_error \<Rightarrow> ('w, 'a) io" where
  "throw e s = (Inl e, s)"

text \<open>\<open>const x = await m; f x\<close>\<close>

definition await :: "('w, 'a) io \<Rightarrow> ('a \<Rightarrow> ('w, 'b) io) \<Rightarrow> ('w, 'b) io" where
  "await m f s = (case m s of (Inl e, s') \<Rightarrow> (Inl e, s') | (Inr a, s') \<Rightarrow> f a s')"

text \<open>\<open>try { m } catch (error) { h error }\<close>\<close>

definition try_catch :: "('w, 'a) io \<Rightarrow> (js_error \<Rightarrow> ('w, 'a) io) \<Rightarrow> ('w, 'a) io" where
  "try_catch m h s = (case m s of (Inl e, s') \<Rightarrow> h e s' | (Inr a, s') \<Rightarrow> (Inr a, s'))"

definition request :: "('q \<Rightarrow> 'w \<Rightarrow> 'r \<times> 'w) \<Rightarrow> ('q \<Rightarrow> call) \<Rightarrow> 'q \<Rightarrow> ('w, 'r) io" where
  "request send tag q s =
     (case s of (w, cs) \<Rightarrow> (case send q w of (r, w') \<Rightarrow> (Inr r, (w', cs @ [tag q]))))"

section \<open>Remote data client\<close>

text \<open>
  The helper is applied to the operation it posts (one of the three of the upstream) and
  to the variables; it throws on a rejected request and on a body with \<open>errors\<close>.
\<close>

definition makeShopifyGraphQLRequest ::
  "('q \<Rightarrow> 'w \<Rightarrow> 'd axios_outcome \<times> 'w) \<Rightarrow> ('q \<Rightarrow> call) \<Rightarrow> 'q \<Rightarrow> ('w, 'd) io" where
  "makeShopifyGraphQLRequest post tag variables =
     await (request post tag variables) (\<lambda>response.
       case response of
         AxiosRejected m \<Rightarrow> throw (JsError m)
       | GqlErrors errs \<Rightarrow> throw (JsError (''GraphQL Error: '' @ errs))
       | GqlData d \<Rightarrow> return d)"

text \<open>The two \<open>fetch\<close> calls of the REST fallback; a rejected \<open>fetch\<close> throws.\<close>

definition fetch_GET :: "'w remote \<Rightarrow> string \<Rightarrow> ('w, bool \<times> get_body) io" where
  "fetch_GET R cleanCustomerId =
     await (request (fetch_list R) REST_GET cleanCustomerId) (\<lambda>outcome.
       case outcome of
         GetRejected m \<Rightarrow> throw (JsError m)
       | GetResponse ok b \<Rightarrow> return (ok, b))"

definition fetch_send ::
  "'w remote \<Rightarrow> rest_method \<Rightarrow> string \<Rightarrow> rest_payload \<Rightarrow> ('w, write_response) io" where
  "fetch_send R method cleanCustomerId payload =
     await (request (\<lambda>(m, c, p). fetch_write R m c p)
              (\<lambda>(m, c, p). case m of PUT i \<Rightarrow> REST_PUT c i p | POST \<Rightarrow> REST_POST c p)
              (method, cleanCustomerId, payload)) (\<lambda>outcome.
       case outcome of
         WriteRejected m \<Rightarrow> throw (JsError m)
       | WriteResponse r \<Rightarrow> return r)"

section \<open>Metafield synchronizer\<close>

text \<open>\<open>existingMetafields.metafields?.find(mf => ...)?.id\<close>: the id of the first listed
  metafield with namespace \<open>custom\<close> and key \<open>wishlist_products\<close>, if any.\<close>

definition existing_id :: "rest_metafield list option \<Rightarrow> nat option" where
  "existing_id existingMetafields =
     (case existingMetafields of
        None \<Rightarrow> None
      | Some metafields \<Rightarrow>
          (case find (\<lambda>mf. rest_namespace mf = ''custom''
                           \<and> rest_key mf = ''wishlist_products'') metafields of
             None \<Rightarrow> None
           | Some existingMetafield \<Rightarrow> Some (rest_id existingMetafield)))"

definition updateCustomerMetafieldREST :: "'w remote \<Rightarrow> string \<Rightarrow> wishlist \<Rightarrow> ('w, unit) io" where
  "updateCustomerMetafieldREST R customerId wishlistProducts =
     try_catch
       (let cleanCustomerId = replace customerId ''gid://shopify/Customer/'' [] in
        await (fetch_GET R cleanCustomerId) (\<lambda>(ok, b).
        await (if ok then
                 (case b of
                    GetNotJson m \<Rightarrow> throw (JsError m)
                  | GetJson existingMetafields \<Rightarrow>
                      return (existing_id existingMetafields))
               else return None) (\<lambda>metafieldId.
        await (fetch_send R
                 (case metafieldId of
                    None \<Rightarrow> POST
                  | Some i \<Rightarrow> if i \<noteq> 0 then PUT i else POST)
                 cleanCustomerId
                 \<lparr>out_namespace = ''custom'', out_key = ''wishlist_products'',
                  out_value = JSON_stringify wishlistProducts, out_type = ''json''\<rparr>) (\<lambda>response.
        if \<not> write_ok response then
          throw (JsError (''REST API Error: '' @ string_of_nat (write_status response)
                            @ '' - '' @ write_text response))
        else
          (case write_json_error response of
             Some m \<Rightarrow> throw (JsError m)
           | None \<Rightarrow> return ())))))
       (\<lambda>error. throw error)"

text \<open>
  The expression \<open>customerId.startsWith('gid://') ? customerId :
  `gid://shopify/Customer/${customerId}`\<close>, written inline in the read and in both writes.
\<close>

definition qualify :: "string \<Rightarrow> string" where
  "qualify customerId =
     (if startsWith customerId ''gid://'' then customerId
      else ''gid://shopify/Customer/'' @ customerId)"

definition updateCustomerMetafield :: "'w remote \<Rightarrow> string \<Rightarrow> wishlist \<Rightarrow> ('w, unit) io" where
  "updateCustomerMetafield R customerId wishlistProducts =
     try_catch
       (await (makeShopifyGraphQLRequest (post_metafieldsSet R) GraphQL_metafieldsSet
                 \<lparr>in_ownerId = qualify customerId, in_namespace = ''custom'',
                  in_key = ''wishlist_products'',
                  in_value = JSON_stringify wishlistProducts, in_type = ''json''\<rparr>) (\<lambda>result.
          case result of
            NoPayload \<Rightarrow>
              throw (JsError ''Cannot read properties of null (reading 'userErrors')'')
          | Payload userErrors \<Rightarrow>
              (case userErrors of
                 Some (e # es) \<Rightarrow> updateCustomerMetafieldREST R customerId wishlistProducts
               | _ \<Rightarrow> return ())))
       (\<lambda>error. updateCustomerMetafieldREST R customerId wishlistProducts)"

definition getCustomerMetafield :: "'w remote \<Rightarrow> string \<Rightarrow> ('w, wishlist) io" where
  "getCustomerMetafield R customerId =
     try_catch
       (await (makeShopifyGraphQLRequest (post_getCustomer R) GraphQL_getCustomer
                 (qualify customerId)) (\<lambda>result.
          case result of
            None \<Rightarrow> throw (JsError (''Customer not found: '' @ customerId))
          | Some edges \<Rightarrow>
              (case find (\<lambda>node. node_key node = ''wishlist_products''
                                \<and> node_namespace node = ''custom'') edges of
                 Some wishlistMetafield \<Rightarrow>
                   (case JSON_parse (node_value wishlistMetafield) of
                      Inr productDetails \<Rightarrow> return productDetails
                    | Inl parseError \<Rightarrow> return [])
               | None \<Rightarrow> return [])))
       (\<lambda>error. if str_includes (message error) ''Customer not found''
                then return [] else throw error)"

section \<open>Product lookup\<close>

text \<open>
  \<open>xs.map(f)\<close> where \<open>f\<close> may throw: the first exception ends the map.
\<close>

fun map_throwing :: "('a \<Rightarrow> js_error + 'b) \<Rightarrow> 'a list \<Rightarrow> js_error + 'b list" where
  "map_throwing f [] = Inr []"
| "map_throwing f (x # xs) =
     (case f x of
        Inl e \<Rightarrow> Inl e
      | Inr y \<Rightarrow> (case map_throwing f xs of Inl e \<Rightarrow> Inl e | Inr ys \<Rightarrow> Inr (y # ys)))"

text \<open>
  The callback of \<open>result.nodes.map\<close>: reading \<open>product.id\<close> of a \<open>null\<close> node, or calling
  \<open>.replace\<close> on an \<open>id\<close> that is not a string, is a \<open>TypeError\<close>.
\<close>

definition strip_node :: "product option \<Rightarrow> js_error + product" where
  "strip_node node =
     (case node of
        None \<Rightarrow> Inl (JsError ''Cannot read properties of null (reading 'id')'')
      | Some product \<Rightarrow>
          (case product_id product of
             Str i \<Rightarrow>
               Inr \<lparr>product_id = Str (replace i ''gid://shopify/Product/'' []),
                    product_handle = product_handle product,
                    product_title = product_title product\<rparr>
           | _ \<Rightarrow> Inl (JsError ''Cannot read properties of undefined (reading 'replace')'')))"

text \<open>The object of the \<open>catch\<close> branch, \<open>{id, handle: null, title: `Product ${id}`}\<close>: the id
  is the given value itself.\<close>

definition degraded :: "jsval \<Rightarrow> product" where
  "degraded i = \<lparr>product_id = i, product_handle = Null,
                 product_title = Str (''Product '' @ text_of i)\<rparr>"

text \<open>\<open>`gid://shopify/Product/${id}`\<close>\<close>

definition product_gid :: "jsval \<Rightarrow> string" where
  "product_gid i = ''gid://shopify/Product/'' @ text_of i"

definition getProductDetails :: "'w remote \<Rightarrow> jsval list \<Rightarrow> ('w, product list) io" where
  "getProductDetails R productIds =
     try_catch
       (if productIds = [] then return []
        else
          await (makeShopifyGraphQLRequest (post_getProducts R) GraphQL_getProducts
                   (map product_gid productIds)) (\<lambda>nodes.
            case map_throwing strip_node nodes of
              Inl e \<Rightarrow> throw e
            | Inr products \<Rightarrow> return products))
       (\<lambda>error. return (map degraded productIds))"

section \<open>Request gate\<close>

record env =
  NODE_ENV :: "string option"
  DEVELOPMENT_URL :: "string option"
  SHOPIFY_STORE_URL :: "string option"

datatype route = POST_add | GET_root | DELETE_remove | Unmatched

text \<open>
  The request as the router sees it: the route Express matched, the three headers the gate
  reads, the two fields of \<open>req.body\<close> (any JSON value, \<open>Undefined\<close> when absent) and
  the field of \<open>req.query\<close> (a string when present). \<open>storeValidation\<close> is
  \<open>req.storeValidation?.isValidated\<close>.
\<close>

record req =
  req_method :: string
  originalUrl :: string
  req_route :: route
  header_Origin :: "string option"
  header_Referer :: "string option"
  header_host :: "string option"
  body_customerId :: jsval
  body_productId :: jsval
  query_customerId :: "string option"
  storeValidation :: "bool option"

datatype body =
    ErrorBody string string
  | AddedBody string entry nat
  | WishlistBody string wishlist nat
  | RemovedBody string jsval nat

record res =
  status :: nat
  json :: body

text \<open>A string argument that is \<open>undefined\<close> is converted to the text \<open>undefined\<close>.\<close>

definition to_string :: "string option \<Rightarrow> string" where
  "to_string v = (case v of None \<Rightarrow> ''undefined'' | Some s \<Rightarrow> s)"

text \<open>A header or query field is truthy when it is present and not the empty string.\<close>

definition truthy :: "string option \<Rightarrow> bool" where
  "truthy v = (case v of None \<Rightarrow> False | Some s \<Rightarrow> s \<noteq> [])"

definition isValidOrigin :: "env \<Rightarrow> req \<Rightarrow> bool" where
  "isValidOrigin e r =
     (let origin = (if truthy (header_Origin r) then header_Origin r else header_Referer r) in
      if NODE_ENV e = Some ''development'' then
        truthy (header_host r)
          \<and> str_includes (to_string (header_host r)) (to_string (DEVELOPMENT_URL e))
      else
        truthy origin \<and> startsWith (to_string origin) (to_string (SHOPIFY_STORE_URL e)))"

text \<open>The middleware either answers itself (\<open>Inl\<close>) or calls \<open>next()\<close> with the marked request.\<close>

definition validateStoreRequest :: "env \<Rightarrow> req \<Rightarrow> res + req" where
  "validateStoreRequest e r =
     (if \<not> isValidOrigin e r then
        Inl \<lparr>status = 403,
             json = ErrorBody ''Forbidden'' ''Request not authorized from this store''\<rparr>
      else Inr (r\<lparr>storeValidation := Some True\<rparr>))"

section \<open>Wishlist operations\<close>

type_synonym 'w handler = "'w st \<Rightarrow> res \<times> 'w st"

text \<open>The handler's outer \<open>try\<close>/\<open>catch\<close>: an exception becomes a 500 carrying its message.\<close>

definition respond :: "string \<Rightarrow> ('w, res) io \<Rightarrow> 'w handler" where
  "respond failure m s =
     (case m s of
        (Inr r, s') \<Rightarrow> (r, s')
      | (Inl error, s') \<Rightarrow> (\<lparr>status = 500, json = ErrorBody failure (message error)\<rparr>, s'))"

text \<open>\<open>{...productDetails[0], addedAt: now, addedFrom: 'shopify-store'}\<close>; spreading
  \<open>undefined\<close> (an empty \<open>productDetails\<close>) contributes no property.\<close>

definition newProduct :: "product list \<Rightarrow> string \<Rightarrow> entry" where
  "newProduct productDetails now =
     (case productDetails of
        [] \<Rightarrow> \<lparr>entry_id = Undefined, entry_handle = Undefined, entry_title = Undefined,
               addedAt = Str now, addedFrom = Str ''shopify-store''\<rparr>
      | p # _ \<Rightarrow> \<lparr>entry_id = product_id p, entry_handle = product_handle p,
                  entry_title = product_title p,
                  addedAt = Str now, addedFrom = Str ''shopify-store''\<rparr>)"

text \<open>
  Both body handlers call \<open>getCustomerMetafield(customerId)\<close> first. For a \<open>customerId\<close> that
  is not a string, \<open>customerId.startsWith\<close> there is a \<open>TypeError\<close>, raised inside the read's
  \<open>try\<close> before any request is sent; its message does not contain \<open>Customer not found\<close>, so
  the read's \<open>catch\<close> rethrows it to the handler.
\<close>

definition add :: "'w remote \<Rightarrow> string \<Rightarrow> req \<Rightarrow> 'w handler" where
  "add R now r =
     (if storeValidation r \<noteq> Some True then
        Pair \<lparr>status = 403,
              json = ErrorBody ''Unauthorized'' ''Request not validated for store access''\<rparr>
      else if \<not> is_truthy (body_customerId r) \<or> \<not> is_truthy (body_productId r) then
        Pair \<lparr>status = 400,
              json = ErrorBody ''Missing required fields''
                       ''customerId and productId are required''\<rparr>
      else
        (let productId = body_productId r in
         respond ''Failed to add product to wishlist''
           (case body_customerId r of
              Str customerId \<Rightarrow>
                await (getCustomerMetafield R customerId) (\<lambda>currentWishlist.
                  case find (\<lambda>product. strict_equal (entry_id product) productId)
                         currentWishlist of
                    Some existingProduct \<Rightarrow>
                      return \<lparr>status = 409,
                              json = ErrorBody ''Product already in wishlist''
                                       ''This product is already in the customer's wishlist''\<rparr>
                  | None \<Rightarrow>
                      await (getProductDetails R [productId]) (\<lambda>productDetails.
                        let added = newProduct productDetails now;
                            pushed = currentWishlist @ [added]
                        in await (updateCustomerMetafield R customerId pushed) (\<lambda>_.
                             return \<lparr>status = 201,
                                     json = AddedBody customerId added (length pushed)\<rparr>)))
            | _ \<Rightarrow> throw (JsError ''customerId.startsWith is not a function''))))"

definition get :: "'w remote \<Rightarrow> req \<Rightarrow> 'w handler" where
  "get R r =
     (if storeValidation r \<noteq> Some True then
        Pair \<lparr>status = 403,
              json = ErrorBody ''Unauthorized'' ''Request not validated for store access''\<rparr>
      else if \<not> truthy (query_customerId r) then
        Pair \<lparr>status = 400,
              json = ErrorBody ''Missing required parameter'' ''customerId is required''\<rparr>
      else
        (let customerId = to_string (query_customerId r) in
         respond ''Failed to fetch wishlist''
           (await (getCustomerMetafield R customerId) (\<lambda>wishlist.
              return \<lparr>status = 200,
                      json = WishlistBody customerId wishlist (length wishlist)\<rparr>))))"

definition remove :: "'w remote \<Rightarrow> req \<Rightarrow> 'w handler" where
  "remove R r =
     (if \<not> is_truthy (body_customerId r) \<or> \<not> is_truthy (body_productId r) then
        Pair \<lparr>status = 400,
              json = ErrorBody ''Missing required fields''
                       ''customerId and productId are required''\<rparr>
      else
        (let productId = body_productId r in
         respond ''Failed to remove product from wishlist''
           (case body_customerId r of
              Str customerId \<Rightarrow>
                await (getCustomerMetafield R customerId) (\<lambda>currentWishlist.
                  let initialLength = length currentWishlist;
                      filtered = filter (\<lambda>product. \<not> strict_equal (entry_id product) productId)
                                   currentWishlist
                  in if length filtered = initialLength then
                       return \<lparr>status = 404,
                               json = ErrorBody ''Product not found''
                                        ''Product not found in wishlist''\<rparr>
                     else
                       await (updateCustomerMetafield R customerId filtered) (\<lambda>_.
                         return \<lparr>status = 200,
                                 json = RemovedBody customerId productId
                                          (length filtered)\<rparr>))
            | _ \<Rightarrow> throw (JsError ''customerId.startsWith is not a function''))))"

text \<open>
  \<open>router.use(validateStoreRequest)\<close> is registered before the three routes, so every
  request reaching the router passes the gate first; a request no route matches falls
  through to the application's catch-all.
\<close>

definition router :: "'w remote \<Rightarrow> env \<Rightarrow> string \<Rightarrow> req \<Rightarrow> 'w handler" where
  "router R e now r =
     (case validateStoreRequest e r of
        Inl forbidden \<Rightarrow> Pair forbidden
      | Inr r' \<Rightarrow>
          (case req_route r' of
             POST_add \<Rightarrow> add R now r'
           | GET_root \<Rightarrow> get R r'
           | DELETE_remove \<Rightarrow> remove R r'
           | Unmatched \<Rightarrow>
               Pair \<lparr>status = 404,
                     json = ErrorBody ''Route not found''
                              (''Cannot '' @ req_method r' @ '' '' @ originalUrl r')\<rparr>))"

section \<open>An in-memory upstream for running the handlers\<close>

text \<open>
  A store holding one customer's \<open>custom.wishlist_products\<close> metafield. Its switches make
  the customer unknown, the product lookup fail or resolve to \<open>null\<close>, the mutation report
  user errors (without storing), and the next REST writes answer 500.
\<close>

record shop =
  customer_known :: bool
  stored :: "json_text option"
  lookup_fails :: bool
  product_known :: bool
  user_errors :: "string list"
  rest_failures :: nat

definition shop_edges :: "shop \<Rightarrow> edge_node list" where
  "shop_edges w =
     (case stored w of
        None \<Rightarrow> []
      | Some v \<Rightarrow> [\<lparr>node_namespace = ''custom'', node_key = ''wishlist_products'',
                     node_value = v\<rparr>])"

definition shop_remote :: "shop remote" where
  "shop_remote =
     \<lparr>post_getCustomer = (\<lambda>i w.
        (GqlData (if customer_known w then Some (shop_edges w) else None), w)),
      post_getProducts = (\<lambda>ids w.
        (if lookup_fails w then AxiosRejected ''timeout of 1000ms exceeded''
         else if product_known w then
           GqlData (map (\<lambda>i. Some \<lparr>product_id = Str i, product_handle = Str ''mug'',
                                      product_title = Str ''Mug''\<rparr>) ids)
         else GqlData (map (\<lambda>i. None) ids), w)),
      post_metafieldsSet = (\<lambda>inp w.
        if user_errors w = [] then
          (GqlData (Payload (Some [])), w\<lparr>stored := Some (in_value inp)\<rparr>)
        else (GqlData (Payload (Some (user_errors w))), w)),
      fetch_list = (\<lambda>c w.
        (GetResponse True
           (GetJson (Some (case stored w of
                             None \<Rightarrow> []
                           | Some v \<Rightarrow> [\<lparr>rest_id = 7, rest_namespace = ''custom'',
                                          rest_key = ''wishlist_products''\<rparr>]))), w)),
      fetch_write = (\<lambda>m c p w.
        if 0 < rest_failures w then
          (WriteResponse \<lparr>write_ok = False, write_status = 500,
                          write_text = ''Internal Server Error'',
                          write_json_error = Some ''Unexpected token I in JSON at position 0''\<rparr>,
           w\<lparr>rest_failures := rest_failures w - 1\<rparr>)
        else
          (WriteResponse \<lparr>write_ok = True, write_status = 200,
                          write_text = ''{}'', write_json_error = None\<rparr>,
           w\<lparr>stored := Some (out_value p)\<rparr>))\<rparr>"

definition empty_shop :: shop where
  "empty_shop = \<lparr>customer_known = True, stored = None, lookup_fails = False,
                  product_known = True, user_errors = [], rest_failures = 0\<rparr>"

definition store_env :: env where
  "store_env = \<lparr>NODE_ENV = Some ''production'', DEVELOPMENT_URL = None,
                 SHOPIFY_STORE_URL = Some ''https://shop.example''\<rparr>"

definition base_req :: req where
  "base_req = \<lparr>req_method = ''GET'', originalUrl = ''/api/wishlist'', req_route = GET_root,
                header_Origin = Some ''https://shop.example'', header_Referer = None,
                header_host = Some ''api.example'', body_customerId = Undefined,
                body_productId = Undefined, query_customerId = None,
                storeValidation = None\<rparr>"

definition sample_entry :: "string \<Rightarrow> entry" where
  "sample_entry i = \<lparr>entry_id = Str i, entry_handle = Str ''mug'', entry_title = Str ''Mug'',
                      addedAt = Str ''2024-01-01T00:00:00.000Z'',
                      addedFrom = Str ''shopify-store''\<rparr>"

text \<open>Body requests for customer \<open>c\<close> and a product id of any value, or a string.\<close>

definition add_with :: "string \<Rightarrow> jsval \<Rightarrow> req" where
  "add_with c v = base_req\<lparr>req_method := ''POST'', originalUrl := ''/api/wishlist/add'',
                            req_route := POST_add, body_customerId := Str c,
                            body_productId := v\<rparr>"

definition remove_with :: "string \<Rightarrow> jsval \<Rightarrow> req" where
  "remove_with c v = base_req\<lparr>req_method := ''DELETE'',
                               originalUrl := ''/api/wishlist/remove'',
                               req_route := DELETE_remove, body_customerId := Str c,
                               body_productId := v\<rparr>"

definition add_req :: "string \<Rightarrow> string \<Rightarrow> req" where
  "add_req c p = add_with c (Str p)"

definition remove_req :: "string \<Rightarrow> string \<Rightarrow> req" where
  "remove_req c p = remove_with c (Str p)"

section \<open>The record of requests\<close>

text \<open>A computation only ever appends to the record of requests.\<close>

definition grows :: "('w, 'a) io \<Rightarrow> bool" where
  "grows m = (\<forall>s x s'. m s = (x, s') \<longrightarrow> (\<exists>more. snd s' = snd s @ more))"

text \<open>A computation's first request is \<open>c\<close>.\<close>

definition begins :: "call \<Rightarrow> ('w, 'a) io \<Rightarrow> bool" where
  "begins c m = (\<forall>s x s'. m s = (x, s') \<longrightarrow> (\<exists>more. snd s' = snd s @ c # more))"

section \<open>Basic facts\<close>

lemmas io_defs = return_def throw_def await_def try_catch_def request_def
  makeShopifyGraphQLRequest_def

lemma str_includes_append: "p \<noteq> [] \<Longrightarrow> str_includes (p @ s) p"
  by (cases p) auto

lemma replace_prefix: "p \<noteq> [] \<Longrightarrow> replace (p @ s) p r = r @ s"
  by (cases p) auto

lemma replace_absent: "p \<noteq> [] \<Longrightarrow> \<not> str_includes s p \<Longrightarrow> replace s p r = s"
  by (induction s) auto

text \<open>Strict equality with a string or a number is equality; with oneself it needs a
  primitive.\<close>

lemma strict_equal_Str [simp]: "strict_equal v (Str s) = (v = Str s)"
  by (cases v) (auto simp: strict_equal_def)

lemma strict_equal_Num [simp]: "strict_equal v (Num n) = (v = Num n)"
  by (cases v) (auto simp: strict_equal_def)

lemma strict_equal_Bool [simp]: "strict_equal v (Bool b) = (v = Bool b)"
  by (cases v) (auto simp: strict_equal_def)

lemma strict_equal_primitive: "is_primitive a \<Longrightarrow> strict_equal a b = (a = b)"
  by (simp add: strict_equal_def)

lemma strict_equal_reference: "\<not> is_primitive b \<Longrightarrow> \<not> strict_equal a b"
  by (auto simp: strict_equal_def)


lemma find_none_iff: "(find P xs = None) = (\<forall>x\<in>set xs. \<not> P x)"
  by (induction xs) auto

lemma filter_keeps_all: "(length (filter P xs) = length xs) = (\<forall>x\<in>set xs. P x)"
  by (induction xs) (auto simp: le_imp_less_Suc less_not_refl3 dest: length_filter_le [THEN le_less_trans])

text \<open>A read sends exactly one request, the customer query for the qualified id.\<close>

lemma read_state:
  "getCustomerMetafield R cid (w, cs) = (x, s') \<Longrightarrow>
     s' = (snd (post_getCustomer R (qualify cid) w), cs @ [GraphQL_getCustomer (qualify cid)])"
  by (auto simp: getCustomerMetafield_def io_defs
           split: prod.splits sum.splits axios_outcome.splits option.splits if_splits)

lemma read_calls:
  "getCustomerMetafield R cid s = (x, s') \<Longrightarrow>
     snd s' = snd s @ [GraphQL_getCustomer (qualify cid)]"
  by (cases s) (auto dest: read_state)




lemma growsD: "grows m \<Longrightarrow> m s = (x, s') \<Longrightarrow> \<exists>more. snd s' = snd s @ more"
  unfolding grows_def by blast

lemma grows_return: "grows (return a)" by (simp add: grows_def return_def)
lemma grows_throw: "grows (throw a)" by (simp add: grows_def throw_def)
lemma grows_request: "grows (request send tag q)"
  by (auto simp: grows_def request_def split: prod.splits)

lemma grows_await:
  assumes m: "grows m" and f: "\<And>a. grows (f a)"
  shows "grows (await m f)"
  unfolding grows_def
proof (intro allI impI)
  fix s x s' assume run: "await m f s = (x, s')"
  obtain y s1 where ms: "m s = (y, s1)" by (cases "m s")
  from growsD [OF m ms] obtain k where k: "snd s1 = snd s @ k" by blast
  show "\<exists>more. snd s' = snd s @ more"
  proof (cases y)
    case (Inl e)
    with run ms k show ?thesis by (auto simp: await_def)
  next
    case (Inr a)
    with run ms have "f a s1 = (x, s')" by (simp add: await_def)
    from growsD [OF f this] k show ?thesis by auto
  qed
qed

lemma grows_try:
  assumes m: "grows m" and h: "\<And>e. grows (h e)"
  shows "grows (try_catch m h)"
  unfolding grows_def
proof (intro allI impI)
  fix s x s' assume run: "try_catch m h s = (x, s')"
  obtain y s1 where ms: "m s = (y, s1)" by (cases "m s")
  from growsD [OF m ms] obtain k where k: "snd s1 = snd s @ k" by blast
  show "\<exists>more. snd s' = snd s @ more"
  proof (cases y)
    case (Inr a)
    with run ms k show ?thesis by (auto simp: try_catch_def)
  next
    case (Inl e)
    with run ms have "h e s1 = (x, s')" by (simp add: try_catch_def)
    from growsD [OF h this] k show ?thesis by auto
  qed
qed

lemmas grows_intros = grows_return grows_throw grows_request grows_await grows_try

lemma grows_rest: "grows (updateCustomerMetafieldREST R cid wl)"
  unfolding updateCustomerMetafieldREST_def fetch_GET_def fetch_send_def Let_def
  by (auto intro!: grows_intros
           split: prod.splits get_outcome.splits get_body.splits write_outcome.splits
                  option.splits)

lemma rest_calls_grow:
  "updateCustomerMetafieldREST R cid wl s = (x, s') \<Longrightarrow> \<exists>more. snd s' = snd s @ more"
  by (rule growsD [OF grows_rest])


lemma update_first_call:
  "updateCustomerMetafield R cid wl s = (x, s') \<Longrightarrow>
     \<exists>more. snd s' = snd s @
       GraphQL_metafieldsSet
         \<lparr>in_ownerId = qualify cid, in_namespace = ''custom'', in_key = ''wishlist_products'',
          in_value = JSON_stringify wl, in_type = ''json''\<rparr> # more"
  by (cases s)
     (auto simp: updateCustomerMetafield_def io_defs
           split: prod.splits sum.splits axios_outcome.splits set_data.splits
                  option.splits list.splits
           dest!: rest_calls_grow)

section \<open>The handlers behind the gate\<close>

lemma read_not_found:
  "post_getCustomer R (qualify cid) w = (GqlData None, w') \<Longrightarrow>
     getCustomerMetafield R cid (w, cs) =
       (Inr [], (w', cs @ [GraphQL_getCustomer (qualify cid)]))"
  by (simp add: getCustomerMetafield_def io_defs)

lemma read_found:
  "post_getCustomer R (qualify cid) w = (GqlData (Some edges), w') \<Longrightarrow>
     getCustomerMetafield R cid (w, cs) =
       (Inr (case find (\<lambda>node. node_key node = ''wishlist_products''
                               \<and> node_namespace node = ''custom'') edges of
               None \<Rightarrow> []
             | Some m \<Rightarrow> (case node_value m of NotJson t \<Rightarrow> [] | JsonArray wl \<Rightarrow> wl)),
        (w', cs @ [GraphQL_getCustomer (qualify cid)]))"
  by (simp add: getCustomerMetafield_def io_defs split: option.splits json_text.splits)

lemma router_get:
  assumes "isValidOrigin e r" "req_route r = GET_root"
    and "query_customerId r = Some cid" "cid \<noteq> []"
    and "getCustomerMetafield R cid s = (Inr wl, s')"
  shows "router R e now r s = (\<lparr>status = 200, json = WishlistBody cid wl (length wl)\<rparr>, s')"
  using assms
  by (simp add: router_def validateStoreRequest_def get_def respond_def truthy_def
                to_string_def await_def return_def)


lemma router_add_fresh:
  assumes "isValidOrigin e r" "req_route r = POST_add"
    and "body_customerId r = Str cid" "cid \<noteq> []"
    and "body_productId r = p" "is_truthy p"
    and "getCustomerMetafield R cid s = (Inr wl, s1)"
    and "\<forall>x\<in>set wl. \<not> strict_equal (entry_id x) p"
    and "getProductDetails R [p] s1 = (Inr ds, s2)"
  shows "router R e now r s =
           (case updateCustomerMetafield R cid (wl @ [newProduct ds now]) s2 of
              (Inr u, s3) \<Rightarrow>
                (\<lparr>status = 201,
                  json = AddedBody cid (newProduct ds now) (Suc (length wl))\<rparr>, s3)
            | (Inl error, s3) \<Rightarrow>
                (\<lparr>status = 500,
                  json = ErrorBody ''Failed to add product to wishlist'' (message error)\<rparr>,
                 s3))"
proof -
  from assms(8) have "find (\<lambda>product. strict_equal (entry_id product) p) wl = None"
    by (simp add: find_none_iff)
  with assms(1-7,9) show ?thesis
    by (simp add: router_def validateStoreRequest_def add_def respond_def truthy_def
                  to_string_def await_def return_def Let_def
             split: prod.splits sum.splits)
qed

lemma router_remove_absent:
  assumes "isValidOrigin e r" "req_route r = DELETE_remove"
    and "body_customerId r = Str cid" "cid \<noteq> []"
    and "body_productId r = p" "is_truthy p"
    and "getCustomerMetafield R cid s = (Inr wl, s')"
    and "\<forall>x\<in>set wl. \<not> strict_equal (entry_id x) p"
  shows "router R e now r s =
           (\<lparr>status = 404,
             json = ErrorBody ''Product not found'' ''Product not found in wishlist''\<rparr>, s')"
proof -
  from assms(8) have "length (filter (\<lambda>product. \<not> strict_equal (entry_id product) p) wl) = length wl"
    by (simp add: filter_keeps_all)
  with assms(1-7) show ?thesis
    by (simp add: router_def validateStoreRequest_def remove_def respond_def truthy_def
                  to_string_def await_def return_def Let_def)
qed


text \<open>Evaluating the in-memory upstream and the sample requests.\<close>

lemmas shop_defs = shop_remote_def shop_edges_def empty_shop_def store_env_def base_req_def
  sample_entry_def add_req_def remove_req_def add_with_def remove_with_def



lemma shop_gate_add: "isValidOrigin store_env (add_req c p)"
  by (simp add: isValidOrigin_def shop_defs truthy_def to_string_def startsWith_def)


lemma shop_read:
  "customer_known w \<Longrightarrow> stored w = Some (JsonArray wl) \<Longrightarrow>
     getCustomerMetafield shop_remote ''123'' (w, cs) =
       (Inr wl, (w, cs @ [GraphQL_getCustomer ''gid://shopify/Customer/123'']))"
  by (simp add: read_found shop_remote_def shop_edges_def qualify_def startsWith_def)

lemma shop_read_none:
  "customer_known w \<Longrightarrow> stored w = None \<Longrightarrow>
     getCustomerMetafield shop_remote ''123'' (w, cs) =
       (Inr [], (w, cs @ [GraphQL_getCustomer ''gid://shopify/Customer/123'']))"
  by (simp add: read_found shop_remote_def shop_edges_def qualify_def startsWith_def)

lemma shop_lookup:
  "\<not> lookup_fails w \<Longrightarrow> product_known w \<Longrightarrow>
     getProductDetails shop_remote [Str ''9''] (w, cs) =
       (Inr [\<lparr>product_id = Str ''9'', product_handle = Str ''mug'',
              product_title = Str ''Mug''\<rparr>],
        (w, cs @ [GraphQL_getProducts [''gid://shopify/Product/9'']]))"
  by (simp add: getProductDetails_def io_defs shop_remote_def strip_node_def product_gid_def)

lemma shop_write:
  "user_errors w = [] \<Longrightarrow>
     updateCustomerMetafield shop_remote ''123'' wl (w, cs) =
       (Inr (), (w\<lparr>stored := Some (JsonArray wl)\<rparr>,
        cs @ [GraphQL_metafieldsSet
                \<lparr>in_ownerId = ''gid://shopify/Customer/123'', in_namespace = ''custom'',
                 in_key = ''wishlist_products'', in_value = JsonArray wl,
                 in_type = ''json''\<rparr>]))"
  by (simp add: updateCustomerMetafield_def io_defs shop_remote_def qualify_def startsWith_def
                JSON_stringify_def)

lemma shop_add_run:
  assumes "customer_known w" "\<not> lookup_fails w" "user_errors w = []" "product_known w"
    and "stored w = None \<and> wl = [] \<or> stored w = Some (JsonArray wl)"
    and "\<forall>x\<in>set wl. entry_id x \<noteq> Str ''9''"
  shows "router shop_remote store_env now (add_req ''123'' ''9'') (w, cs) =
           (\<lparr>status = 201,
             json = AddedBody ''123''
                      \<lparr>entry_id = Str ''9'', entry_handle = Str ''mug'',
                       entry_title = Str ''Mug'', addedAt = Str now,
                       addedFrom = Str ''shopify-store''\<rparr> (Suc (length wl))\<rparr>,
            (w\<lparr>stored := Some (JsonArray
                   (wl @ [\<lparr>entry_id = Str ''9'', entry_handle = Str ''mug'',
                           entry_title = Str ''Mug'', addedAt = Str now,
                           addedFrom = Str ''shopify-store''\<rparr>]))\<rparr>,
             cs @ [GraphQL_getCustomer ''gid://shopify/Customer/123'',
                   GraphQL_getProducts [''gid://shopify/Product/9''],
                   GraphQL_metafieldsSet
                     \<lparr>in_ownerId = ''gid://shopify/Customer/123'', in_namespace = ''custom'',
                      in_key = ''wishlist_products'',
                      in_value = JsonArray
                        (wl @ [\<lparr>entry_id = Str ''9'', entry_handle = Str ''mug'',
                                entry_title = Str ''Mug'', addedAt = Str now,
                                addedFrom = Str ''shopify-store''\<rparr>]),
                      in_type = ''json''\<rparr>]))"
proof -
  from assms(1,5) have rd: "getCustomerMetafield shop_remote ''123'' (w, cs) =
      (Inr wl, (w, cs @ [GraphQL_getCustomer ''gid://shopify/Customer/123'']))"
    by (auto simp: shop_read shop_read_none)
  note lk = shop_lookup [OF assms(2,4), of "cs @ [GraphQL_getCustomer ''gid://shopify/Customer/123'']"]
  have "router shop_remote store_env now (add_req ''123'' ''9'') (w, cs) =
          (case updateCustomerMetafield shop_remote ''123''
                  (wl @ [newProduct [\<lparr>product_id = Str ''9'', product_handle = Str ''mug'',
                                      product_title = Str ''Mug''\<rparr>] now])
                  (w, (cs @ [GraphQL_getCustomer ''gid://shopify/Customer/123''])
                        @ [GraphQL_getProducts [''gid://shopify/Product/9'']]) of
              (Inr u, s3) \<Rightarrow>
                (\<lparr>status = 201,
                  json = AddedBody ''123''
                           (newProduct [\<lparr>product_id = Str ''9'', product_handle = Str ''mug'',
                                         product_title = Str ''Mug''\<rparr>] now)
                           (Suc (length wl))\<rparr>, s3)
            | (Inl error, s3) \<Rightarrow>
                (\<lparr>status = 500,
                  json = ErrorBody ''Failed to add product to wishlist'' (message error)\<rparr>,
                 s3))"
    by (rule router_add_fresh [OF shop_gate_add _ _ _ _ _ rd _ lk])
       (simp_all add: add_req_def add_with_def base_req_def assms(6))
  then show ?thesis
    by (simp add: shop_write [OF assms(3)] newProduct_def)
qed




lemma router_add_degraded:
  assumes "isValidOrigin e r" "req_route r = POST_add"
    and "body_customerId r = Str cid" "cid \<noteq> []"
    and "body_productId r = p" "is_truthy p"
    and "getCustomerMetafield R cid s = (Inr wl, mid)"
    and "\<forall>x\<in>set wl. \<not> strict_equal (entry_id x) p"
    and "getProductDetails R [p] mid = (Inr [degraded p], mid')"
  shows "router R e now r s =
           (case updateCustomerMetafield R cid
                   (wl @ [\<lparr>entry_id = p, entry_handle = Null,
                            entry_title = Str (''Product '' @ text_of p), addedAt = Str now,
                            addedFrom = Str ''shopify-store''\<rparr>]) mid' of
              (Inr u, fin) \<Rightarrow>
                (\<lparr>status = 201,
                  json = AddedBody cid
                           \<lparr>entry_id = p, entry_handle = Null,
                            entry_title = Str (''Product '' @ text_of p), addedAt = Str now,
                            addedFrom = Str ''shopify-store''\<rparr> (Suc (length wl))\<rparr>, fin)
            | (Inl error, fin) \<Rightarrow>
                (\<lparr>status = 500,
                  json = ErrorBody ''Failed to add product to wishlist'' (message error)\<rparr>,
                 fin))"
proof -
  have new: "newProduct [degraded p] now =
      \<lparr>entry_id = p, entry_handle = Null, entry_title = Str (''Product '' @ text_of p),
       addedAt = Str now, addedFrom = Str ''shopify-store''\<rparr>"
    by (simp add: newProduct_def degraded_def)
  show ?thesis
    by (rule router_add_fresh [OF assms, of now, unfolded new])
qed

text \<open>An empty \<open>nodes\<close> array raises nothing: the helper returns no product object, and the
  entry built from it has no \<open>id\<close>, \<open>handle\<close> or \<open>title\<close>.\<close>

lemma lookup_no_nodes:
  "ids \<noteq> [] \<Longrightarrow>
   post_getProducts R (map product_gid ids) w = (GqlData [], w') \<Longrightarrow>
   getProductDetails R ids (w, cs) =
     (Inr [], (w', cs @ [GraphQL_getProducts (map product_gid ids)]))"
  by (simp add: getProductDetails_def io_defs)

lemma newProduct_of_nothing: "entry_id (newProduct [] now) = Undefined"
  by (simp add: newProduct_def)

text \<open>Both forms of a customer id lead to the same requests.\<close>

lemma qualify_bare:
  "\<not> startsWith cid ''gid://'' \<Longrightarrow> qualify (''gid://shopify/Customer/'' @ cid) = qualify cid"
  by (simp add: qualify_def startsWith_def)

lemma read_same:
  assumes "\<not> startsWith cid ''gid://''"
  shows "getCustomerMetafield R cid s = getCustomerMetafield R (''gid://shopify/Customer/'' @ cid) s"
proof -
  have found: "str_includes (''Customer not found: '' @ x) ''Customer not found''" for x
    by simp
  obtain w cs where s: "s = (w, cs)" by (cases s)
  obtain outcome w' where p: "post_getCustomer R (qualify cid) w = (outcome, w')"
    by (cases "post_getCustomer R (qualify cid) w")
  show ?thesis
    unfolding getCustomerMetafield_def qualify_bare [OF assms] s
    using p found
    by (cases outcome) (simp_all add: io_defs split: option.splits)
qed

lemma rest_same:
  "replace a ''gid://shopify/Customer/'' [] = replace b ''gid://shopify/Customer/'' [] \<Longrightarrow>
   updateCustomerMetafieldREST R a wl = updateCustomerMetafieldREST R b wl"
  by (simp add: updateCustomerMetafieldREST_def)

lemma write_same:
  assumes "\<not> startsWith cid ''gid://''" "\<not> str_includes cid ''gid://shopify/Customer/''"
  shows "updateCustomerMetafield R cid wl s =
         updateCustomerMetafield R (''gid://shopify/Customer/'' @ cid) wl s"
proof -
  have "replace (''gid://shopify/Customer/'' @ cid) ''gid://shopify/Customer/'' [] = cid"
    using replace_prefix [of "''gid://shopify/Customer/''" cid "[]"] by simp
  moreover from assms(2) have "replace cid ''gid://shopify/Customer/'' [] = cid"
    by (intro replace_absent) simp_all
  ultimately have
    "updateCustomerMetafieldREST R (''gid://shopify/Customer/'' @ cid) wl =
     updateCustomerMetafieldREST R cid wl"
    by (intro rest_same) simp
  then show ?thesis
    unfolding updateCustomerMetafield_def qualify_bare [OF assms(1)] by (simp only:)
qed

lemma add_with_fields:
  "req_route (add_with c v) = POST_add" "body_customerId (add_with c v) = Str c"
  "body_productId (add_with c v) = v"
  by (simp_all add: add_with_def base_req_def)


lemma add_req_fields:
  "req_route (add_req c p) = POST_add" "body_customerId (add_req c p) = Str c"
  "body_productId (add_req c p) = Str p"
  by (simp_all add: add_req_def add_with_fields)



text \<open>
  The write path. A mutation that throws hands over to the REST fallback once. A mutation
  that reports user errors calls the fallback inside the \<open>try\<close> block, so an exception of
  the fallback is caught by the same \<open>catch\<close>, which calls the fallback a second time.
\<close>

lemma update_primary_throws:
  assumes "makeShopifyGraphQLRequest (post_metafieldsSet R) GraphQL_metafieldsSet
             \<lparr>in_ownerId = qualify cid, in_namespace = ''custom'',
              in_key = ''wishlist_products'', in_value = JSON_stringify wl,
              in_type = ''json''\<rparr> s = (Inl err, mid)"
  shows "updateCustomerMetafield R cid wl s = updateCustomerMetafieldREST R cid wl mid"
  using assms by (simp add: updateCustomerMetafield_def await_def try_catch_def)

lemma update_user_errors:
  assumes "makeShopifyGraphQLRequest (post_metafieldsSet R) GraphQL_metafieldsSet
             \<lparr>in_ownerId = qualify cid, in_namespace = ''custom'',
              in_key = ''wishlist_products'', in_value = JSON_stringify wl,
              in_type = ''json''\<rparr> s = (Inr (Payload (Some (u # us))), mid)"
  shows "updateCustomerMetafield R cid wl s =
           (case updateCustomerMetafieldREST R cid wl mid of
              (Inr done, fin) \<Rightarrow> (Inr done, fin)
            | (Inl err, fin) \<Rightarrow> updateCustomerMetafieldREST R cid wl fin)"
  using assms
  by (simp add: updateCustomerMetafield_def await_def try_catch_def
           split: prod.splits sum.splits)

lemma update_no_user_errors:
  assumes "makeShopifyGraphQLRequest (post_metafieldsSet R) GraphQL_metafieldsSet
             \<lparr>in_ownerId = qualify cid, in_namespace = ''custom'',
              in_key = ''wishlist_products'', in_value = JSON_stringify wl,
              in_type = ''json''\<rparr> s = (Inr (Payload errs), mid)"
    and "errs = None \<or> errs = Some []"
  shows "updateCustomerMetafield R cid wl s = (Inr (), mid)"
  using assms
  by (auto simp: updateCustomerMetafield_def await_def try_catch_def return_def)

lemma rest_fallback_requests:
  assumes "fetch_list R (replace cid ''gid://shopify/Customer/'' []) w = (GetResponse ok b, w')"
    and "\<not> ok \<and> found = None \<or> ok \<and> b = GetJson listed \<and> found = existing_id listed"
    and "method = (case found of None \<Rightarrow> POST | Some i \<Rightarrow> if i \<noteq> 0 then PUT i else POST)"
    and "fetch_write R method (replace cid ''gid://shopify/Customer/'' [])
           \<lparr>out_namespace = ''custom'', out_key = ''wishlist_products'',
            out_value = JSON_stringify wl, out_type = ''json''\<rparr> w' = (WriteResponse resp, w'')"
  shows "\<exists>x. updateCustomerMetafieldREST R cid wl (w, cs) =
           (x, (w'', cs @ [REST_GET (replace cid ''gid://shopify/Customer/'' []),
                           (case method of
                              PUT i \<Rightarrow> REST_PUT (replace cid ''gid://shopify/Customer/'' []) i
                                         \<lparr>out_namespace = ''custom'',
                                          out_key = ''wishlist_products'',
                                          out_value = JSON_stringify wl, out_type = ''json''\<rparr>
                            | POST \<Rightarrow> REST_POST (replace cid ''gid://shopify/Customer/'' [])
                                        \<lparr>out_namespace = ''custom'',
                                         out_key = ''wishlist_products'',
                                         out_value = JSON_stringify wl, out_type = ''json''\<rparr>)]))
           \<and> (x = Inr () \<longleftrightarrow> write_ok resp \<and> write_json_error resp = None)
           \<and> (\<not> write_ok resp \<longrightarrow>
                x = Inl (JsError (''REST API Error: '' @ string_of_nat (write_status resp)
                                   @ '' - '' @ write_text resp)))"
  using assms
  by (auto simp: updateCustomerMetafieldREST_def fetch_GET_def fetch_send_def io_defs Let_def
                 existing_id_def
           split: option.splits rest_method.splits)





lemma newProduct_id: "entry_id (newProduct (q # qs) now) = product_id q"
  by (simp add: newProduct_def)




text \<open>The fallback begins by listing the metafields of the stripped customer id.\<close>

lemma beginsD: "begins c m \<Longrightarrow> m s = (x, s') \<Longrightarrow> \<exists>more. snd s' = snd s @ c # more"
  unfolding begins_def by blast

lemma begins_request: "begins (tag q) (request send tag q)"
  by (auto simp: begins_def request_def split: prod.splits)

lemma begins_await:
  assumes m: "begins c m" and f: "\<And>a. grows (f a)"
  shows "begins c (await m f)"
  unfolding begins_def
proof (intro allI impI)
  fix s x s' assume run: "await m f s = (x, s')"
  obtain y mid where ms: "m s = (y, mid)" by (cases "m s")
  from beginsD [OF m ms] obtain k where k: "snd mid = snd s @ c # k" by blast
  show "\<exists>more. snd s' = snd s @ c # more"
  proof (cases y)
    case (Inl e)
    with run ms k show ?thesis by (auto simp: await_def)
  next
    case (Inr a)
    with run ms have "f a mid = (x, s')" by (simp add: await_def)
    from growsD [OF f this] k show ?thesis by auto
  qed
qed

lemma begins_try:
  assumes m: "begins c m" and h: "\<And>e. grows (h e)"
  shows "begins c (try_catch m h)"
  unfolding begins_def
proof (intro allI impI)
  fix s x s' assume run: "try_catch m h s = (x, s')"
  obtain y mid where ms: "m s = (y, mid)" by (cases "m s")
  from beginsD [OF m ms] obtain k where k: "snd mid = snd s @ c # k" by blast
  show "\<exists>more. snd s' = snd s @ c # more"
  proof (cases y)
    case (Inr a)
    with run ms k show ?thesis by (auto simp: try_catch_def)
  next
    case (Inl e)
    with run ms have "h e mid = (x, s')" by (simp add: try_catch_def)
    from growsD [OF h this] k show ?thesis by auto
  qed
qed

lemma rest_first_call:
  "updateCustomerMetafieldREST R cid wl s = (x, s') \<Longrightarrow>
     \<exists>more. snd s' = snd s @ REST_GET (replace cid ''gid://shopify/Customer/'' []) # more"
proof (rule beginsD)
  show "begins (REST_GET (replace cid ''gid://shopify/Customer/'' []))
          (updateCustomerMetafieldREST R cid wl)"
    unfolding updateCustomerMetafieldREST_def fetch_GET_def fetch_send_def Let_def
    by (intro begins_try begins_await begins_request)
       (auto intro!: grows_intros
             split: prod.splits get_outcome.splits get_body.splits write_outcome.splits
                    option.splits)
qed

section \<open>Verified claims\<close>


text \<open>
  \<^bold>\<open>C9\<close>. A request that fails the origin check is answered 403 by the gate and reaches
  no handler: the upstream state and the record of requests come back unchanged, so no
  remote read or write happens. The statement holds for every request, whatever its route
  and fields, so a request that also lacks its required fields gets 403 and not 400.
\<close>

theorem gate_short_circuits:
  "\<not> isValidOrigin e r \<Longrightarrow>
     router R e now r s =
       (\<lparr>status = 403,
         json = ErrorBody ''Forbidden'' ''Request not authorized from this store''\<rparr>, s)"
  by (simp add: router_def validateStoreRequest_def)


text \<open>Witness for C9: a POST to \<open>/add\<close> from a foreign origin with neither field.\<close>

theorem gate_short_circuits_witness:
  "\<not> isValidOrigin store_env
       (base_req\<lparr>req_route := POST_add, header_Origin := Some ''https://evil.example''\<rparr>)
   \<and> router shop_remote store_env ''2024-01-01T00:00:00.000Z''
       (base_req\<lparr>req_route := POST_add, header_Origin := Some ''https://evil.example''\<rparr>)
       (empty_shop, []) =
       (\<lparr>status = 403,
         json = ErrorBody ''Forbidden'' ''Request not authorized from this store''\<rparr>,
        (empty_shop, []))"
proof -
  have h: "\<not> isValidOrigin store_env
       (base_req\<lparr>req_route := POST_add, header_Origin := Some ''https://evil.example''\<rparr>)"
    by (simp add: isValidOrigin_def store_env_def base_req_def truthy_def to_string_def
                  startsWith_def)
  from gate_short_circuits [OF h] h show ?thesis by simp
qed


text \<open>
  \<^bold>\<open>C4\<close>. The wishlist read returns the empty collection, not an error, when the customer
  record is \<open>null\<close> and when the stored metafield value does not parse; and a GET for a
  customer without wishlist activity (no customer record, or no
  \<open>custom.wishlist_products\<close> metafield) is answered 200 with an empty wishlist and count 0.
\<close>

theorem read_recovers_to_empty:
  "(post_getCustomer R (qualify cid) w = (GqlData None, w') \<longrightarrow>
      getCustomerMetafield R cid (w, cs) =
        (Inr [], (w', cs @ [GraphQL_getCustomer (qualify cid)])))
   \<and> (post_getCustomer R (qualify cid) w = (GqlData (Some edges), w')
        \<and> find (\<lambda>node. node_key node = ''wishlist_products''
                        \<and> node_namespace node = ''custom'') edges = Some m
        \<and> node_value m = NotJson t \<longrightarrow>
      getCustomerMetafield R cid (w, cs) =
        (Inr [], (w', cs @ [GraphQL_getCustomer (qualify cid)])))
   \<and> (isValidOrigin e r \<and> req_route r = GET_root
        \<and> query_customerId r = Some cid \<and> cid \<noteq> []
        \<and> (post_getCustomer R (qualify cid) w = (GqlData None, w')
            \<or> post_getCustomer R (qualify cid) w = (GqlData (Some edges), w')
              \<and> find (\<lambda>node. node_key node = ''wishlist_products''
                              \<and> node_namespace node = ''custom'') edges = None) \<longrightarrow>
      router R e now r (w, cs) =
        (\<lparr>status = 200, json = WishlistBody cid [] 0\<rparr>,
         (w', cs @ [GraphQL_getCustomer (qualify cid)])))"
proof (intro conjI impI)
  assume "post_getCustomer R (qualify cid) w = (GqlData None, w')"
  then show "getCustomerMetafield R cid (w, cs) =
        (Inr [], (w', cs @ [GraphQL_getCustomer (qualify cid)]))"
    by (rule read_not_found)
next
  assume "post_getCustomer R (qualify cid) w = (GqlData (Some edges), w')
        \<and> find (\<lambda>node. node_key node = ''wishlist_products''
                        \<and> node_namespace node = ''custom'') edges = Some m
        \<and> node_value m = NotJson t"
  then show "getCustomerMetafield R cid (w, cs) =
        (Inr [], (w', cs @ [GraphQL_getCustomer (qualify cid)]))"
    by (simp add: read_found)
next
  assume a: "isValidOrigin e r \<and> req_route r = GET_root
        \<and> query_customerId r = Some cid \<and> cid \<noteq> []
        \<and> (post_getCustomer R (qualify cid) w = (GqlData None, w')
            \<or> post_getCustomer R (qualify cid) w = (GqlData (Some edges), w')
              \<and> find (\<lambda>node. node_key node = ''wishlist_products''
                              \<and> node_namespace node = ''custom'') edges = None)"
  then have "getCustomerMetafield R cid (w, cs) =
        (Inr [], (w', cs @ [GraphQL_getCustomer (qualify cid)]))"
    by (auto simp: read_found read_not_found)
  with a show "router R e now r (w, cs) =
        (\<lparr>status = 200, json = WishlistBody cid [] 0\<rparr>,
         (w', cs @ [GraphQL_getCustomer (qualify cid)]))"
    using router_get [of e r cid R "(w, cs)" "[]"] by simp
qed


text \<open>Witness for C4: an unknown customer, a corrupted value, and a customer without metafield.\<close>

theorem read_recovers_to_empty_witness:
  "getCustomerMetafield shop_remote ''123'' (empty_shop\<lparr>customer_known := False\<rparr>, []) =
     (Inr [], (empty_shop\<lparr>customer_known := False\<rparr>,
               [GraphQL_getCustomer ''gid://shopify/Customer/123'']))
   \<and> getCustomerMetafield shop_remote ''123''
        (empty_shop\<lparr>stored := Some (NotJson ''[{'')\<rparr>, []) =
     (Inr [], (empty_shop\<lparr>stored := Some (NotJson ''[{'')\<rparr>,
               [GraphQL_getCustomer ''gid://shopify/Customer/123'']))
   \<and> router shop_remote store_env ''2024-01-01T00:00:00.000Z''
        (base_req\<lparr>query_customerId := Some ''123''\<rparr>) (empty_shop, []) =
     (\<lparr>status = 200, json = WishlistBody ''123'' [] 0\<rparr>,
      (empty_shop, [GraphQL_getCustomer ''gid://shopify/Customer/123'']))"
  using
    read_recovers_to_empty [where R = shop_remote and cid = "''123''"
      and w = "empty_shop\<lparr>customer_known := False\<rparr>"
      and w' = "empty_shop\<lparr>customer_known := False\<rparr>" and cs = "[]"]
    read_recovers_to_empty [where R = shop_remote and cid = "''123''"
      and w = "empty_shop\<lparr>stored := Some (NotJson ''[{'')\<rparr>"
      and w' = "empty_shop\<lparr>stored := Some (NotJson ''[{'')\<rparr>" and cs = "[]"
      and edges = "[\<lparr>node_namespace = ''custom'', node_key = ''wishlist_products'',
                     node_value = NotJson ''[{''\<rparr>]"
      and m = "\<lparr>node_namespace = ''custom'', node_key = ''wishlist_products'',
                node_value = NotJson ''[{''\<rparr>"
      and t = "''[{''"]
    read_recovers_to_empty [where R = shop_remote and cid = "''123''"
      and w = empty_shop and w' = empty_shop and cs = "[]" and edges = "[]"
      and e = store_env and r = "base_req\<lparr>query_customerId := Some ''123''\<rparr>"
      and now = "''2024-01-01T00:00:00.000Z''"]
  by (simp add: shop_defs qualify_def startsWith_def isValidOrigin_def truthy_def to_string_def)


text \<open>
  \<^bold>\<open>C3\<close>. A remove whose product id equals the id of no entry of the wishlist just read
  is answered 404, and the only request sent upstream is that read: no write-back happens,
  so the stored collection keeps its length and contents.
\<close>

theorem remove_absent_not_found:
  assumes "isValidOrigin e r" "req_route r = DELETE_remove"
    and "body_customerId r = Str cid" "cid \<noteq> []"
    and "body_productId r = Str pid" "pid \<noteq> []"
    and "getCustomerMetafield R cid s = (Inr wl, s')"
    and "\<forall>x\<in>set wl. entry_id x \<noteq> Str pid"
  shows "router R e now r s =
           (\<lparr>status = 404,
             json = ErrorBody ''Product not found'' ''Product not found in wishlist''\<rparr>, s')
         \<and> snd s' = snd s @ [GraphQL_getCustomer (qualify cid)]
         \<and> filter is_write (snd s') = filter is_write (snd s)"
proof -
  from assms(6) have given: "is_truthy (Str pid)" by simp
  from assms(8) have absent: "\<forall>x\<in>set wl. \<not> strict_equal (entry_id x) (Str pid)" by simp
  from router_remove_absent [OF assms(1-5) given assms(7) absent] read_calls [OF assms(7)]
  show ?thesis by simp
qed


text \<open>Witness for C3: removing product 5 from a wishlist that holds product 9.\<close>

theorem remove_absent_not_found_witness:
  "router shop_remote store_env ''2024-02-02T00:00:00.000Z'' (remove_req ''123'' ''5'')
     (empty_shop\<lparr>stored := Some (JsonArray [sample_entry ''9''])\<rparr>, []) =
     (\<lparr>status = 404,
       json = ErrorBody ''Product not found'' ''Product not found in wishlist''\<rparr>,
      (empty_shop\<lparr>stored := Some (JsonArray [sample_entry ''9''])\<rparr>,
       [GraphQL_getCustomer ''gid://shopify/Customer/123'']))"
proof -
  let ?w = "empty_shop\<lparr>stored := Some (JsonArray [sample_entry ''9''])\<rparr>"
  have gate: "isValidOrigin store_env (remove_req ''123'' ''5'')"
    by (simp add: isValidOrigin_def shop_defs truthy_def to_string_def startsWith_def)
  have rd: "getCustomerMetafield shop_remote ''123'' (?w, []) =
              (Inr [sample_entry ''9''], (?w, [GraphQL_getCustomer ''gid://shopify/Customer/123'']))"
    by (simp add: read_found shop_defs qualify_def startsWith_def)
  have absent: "\<forall>x\<in>set [sample_entry ''9'']. entry_id x \<noteq> Str ''5''"
    by (simp add: sample_entry_def)
  from remove_absent_not_found [where e = store_env and r = "remove_req ''123'' ''5''"
      and cid = "''123''" and pid = "''5''" and R = shop_remote and s = "(?w, [])"
      and wl = "[sample_entry ''9'']"
      and s' = "(?w, [GraphQL_getCustomer ''gid://shopify/Customer/123''])"
      and now = "''2024-02-02T00:00:00.000Z''"] gate rd absent
  show ?thesis by (simp add: remove_req_def remove_with_def base_req_def)
qed










text \<open>
  \<^bold>\<open>C5\<close>. When the product-lookup query fails (the request is rejected or the response
  carries GraphQL errors), an authorized add of a product not yet in the wishlist goes on:
  the entry it appends and writes has the given id, handle \<open>null\<close>, title
  \<open>Product <id>\<close>, the current timestamp and the tag \<open>shopify-store\<close>, and when the write
  goes through the answer is 201 with that entry and the count one above the old length.
  Only a failed write makes the add fail.
\<close>

theorem add_survives_lookup_failure:
  assumes "isValidOrigin e r" "req_route r = POST_add"
    and "body_customerId r = Str cid" "cid \<noteq> []"
    and "body_productId r = Str pid" "pid \<noteq> []"
    and "getCustomerMetafield R cid s = (Inr wl, (w, cs))"
    and "\<forall>x\<in>set wl. entry_id x \<noteq> Str pid"
    and "post_getProducts R [''gid://shopify/Product/'' @ pid] w = (failure, w')"
    and "failure = AxiosRejected m \<or> failure = GqlErrors m"
  shows "router R e now r s =
           (case updateCustomerMetafield R cid
                   (wl @ [\<lparr>entry_id = Str pid, entry_handle = Null,
                            entry_title = Str (''Product '' @ pid), addedAt = Str now,
                            addedFrom = Str ''shopify-store''\<rparr>])
                   (w', cs @ [GraphQL_getProducts [''gid://shopify/Product/'' @ pid]]) of
              (Inr u, fin) \<Rightarrow>
                (\<lparr>status = 201,
                  json = AddedBody cid
                           \<lparr>entry_id = Str pid, entry_handle = Null,
                            entry_title = Str (''Product '' @ pid), addedAt = Str now,
                            addedFrom = Str ''shopify-store''\<rparr> (Suc (length wl))\<rparr>, fin)
            | (Inl error, fin) \<Rightarrow>
                (\<lparr>status = 500,
                  json = ErrorBody ''Failed to add product to wishlist'' (message error)\<rparr>,
                 fin))"
proof -
  from assms(9,10)
  have lk: "getProductDetails R [Str pid] (w, cs) =
      (Inr [degraded (Str pid)],
       (w', cs @ [GraphQL_getProducts [''gid://shopify/Product/'' @ pid]]))"
    by (auto simp: getProductDetails_def io_defs product_gid_def)
  from assms(6) have given: "is_truthy (Str pid)" by simp
  from assms(8) have absent: "\<forall>x\<in>set wl. \<not> strict_equal (entry_id x) (Str pid)" by simp
  show ?thesis
    by (rule router_add_degraded [OF assms(1-5) given assms(7) absent lk,
          unfolded text_of.simps])
qed

text \<open>Witness for C5: the lookup times out while product 9 is added to an empty wishlist.\<close>

theorem add_survives_lookup_failure_witness:
  "router shop_remote store_env ''2024-01-01T00:00:00.000Z'' (add_req ''123'' ''9'')
     (empty_shop\<lparr>lookup_fails := True\<rparr>, []) =
     (\<lparr>status = 201,
       json = AddedBody ''123''
                \<lparr>entry_id = Str ''9'', entry_handle = Null, entry_title = Str ''Product 9'',
                 addedAt = Str ''2024-01-01T00:00:00.000Z'',
                 addedFrom = Str ''shopify-store''\<rparr> 1\<rparr>,
      (empty_shop\<lparr>lookup_fails := True,
         stored := Some (JsonArray
           [\<lparr>entry_id = Str ''9'', entry_handle = Null, entry_title = Str ''Product 9'',
             addedAt = Str ''2024-01-01T00:00:00.000Z'',
             addedFrom = Str ''shopify-store''\<rparr>])\<rparr>,
       [GraphQL_getCustomer ''gid://shopify/Customer/123'',
        GraphQL_getProducts [''gid://shopify/Product/9''],
        GraphQL_metafieldsSet
          \<lparr>in_ownerId = ''gid://shopify/Customer/123'', in_namespace = ''custom'',
           in_key = ''wishlist_products'',
           in_value = JsonArray
             [\<lparr>entry_id = Str ''9'', entry_handle = Null, entry_title = Str ''Product 9'',
               addedAt = Str ''2024-01-01T00:00:00.000Z'',
               addedFrom = Str ''shopify-store''\<rparr>],
           in_type = ''json''\<rparr>]))"
proof -
  let ?w = "empty_shop\<lparr>lookup_fails := True\<rparr>"
  let ?r = "add_req ''123'' ''9''"
  let ?rd = "GraphQL_getCustomer ''gid://shopify/Customer/123''"
  have fields: "req_route ?r = POST_add" "body_customerId ?r = Str ''123''" "''123'' \<noteq> []"
    "body_productId ?r = Str ''9''" "''9'' \<noteq> []"
    by (simp_all add: add_req_fields)
  have rd: "getCustomerMetafield shop_remote ''123'' (?w, []) = (Inr [], (?w, [?rd]))"
    by (simp add: shop_read_none empty_shop_def)
  have fresh: "\<forall>x\<in>set ([]::wishlist). entry_id x \<noteq> Str ''9''" by simp
  have down: "post_getProducts shop_remote [''gid://shopify/Product/'' @ ''9''] ?w =
      (AxiosRejected ''timeout of 1000ms exceeded'', ?w)"
    by (simp add: shop_remote_def empty_shop_def)
  have kind: "AxiosRejected ''timeout of 1000ms exceeded'' =
        (AxiosRejected ''timeout of 1000ms exceeded'' :: products_data axios_outcome)
      \<or> AxiosRejected ''timeout of 1000ms exceeded'' =
        (GqlErrors ''timeout of 1000ms exceeded'' :: products_data axios_outcome)"
    by simp
  have wr: "user_errors ?w = []" by (simp add: empty_shop_def)
  from add_survives_lookup_failure [OF shop_gate_add fields rd fresh down kind,
      of "''2024-01-01T00:00:00.000Z''"]
  show ?thesis
    by (simp add: shop_write [OF wr])
qed





text \<open>
  \<^bold>\<open>C6\<close>. Customer id normalization. An id that does not start with the resource scheme
  \<open>gid://\<close> is prefixed with \<open>gid://shopify/Customer/\<close>; an id that does (a qualified id)
  is used as it is. The normalized id is what both paths send upstream: the read sends
  exactly one request, the customer query for the normalized id, and takes the upstream's
  answer to it; the write first sends the mutation whose owner is the normalized id. The
  REST fallback of the write addresses the customer by the id with the first
  \<open>gid://shopify/Customer/\<close> removed, wherever in the id it stands, which for the
  qualified form of a bare id is that bare id. A bare id and its qualified form have the same normalized id and give the same
  read; \<open>123\<close> and \<open>gid://shopify/Customer/123\<close> give the same read and the same write,
  fallback included, so they address the same stored wishlist.
\<close>

theorem customer_id_forms_address_same_wishlist:
  "(\<not> startsWith cid ''gid://'' \<longrightarrow> qualify cid = ''gid://shopify/Customer/'' @ cid)
   \<and> (startsWith cid ''gid://'' \<longrightarrow> qualify cid = cid)
   \<and> snd (getCustomerMetafield R cid (w, cs)) =
       (snd (post_getCustomer R (qualify cid) w), cs @ [GraphQL_getCustomer (qualify cid)])
   \<and> (\<exists>more. snd (snd (updateCustomerMetafield R cid wl (w, cs))) =
         cs @ GraphQL_metafieldsSet
                \<lparr>in_ownerId = qualify cid, in_namespace = ''custom'',
                 in_key = ''wishlist_products'', in_value = JSON_stringify wl,
                 in_type = ''json''\<rparr> # more)
   \<and> (\<exists>more. snd (snd (updateCustomerMetafieldREST R cid wl (w, cs))) =
         cs @ REST_GET (replace cid ''gid://shopify/Customer/'' []) # more)
   \<and> (\<not> startsWith cid ''gid://'' \<longrightarrow>
        qualify (''gid://shopify/Customer/'' @ cid) = qualify cid
        \<and> replace (''gid://shopify/Customer/'' @ cid) ''gid://shopify/Customer/'' [] = cid
        \<and> getCustomerMetafield R (''gid://shopify/Customer/'' @ cid) s =
            getCustomerMetafield R cid s)
   \<and> getCustomerMetafield R ''gid://shopify/Customer/123'' s = getCustomerMetafield R ''123'' s
   \<and> updateCustomerMetafield R ''gid://shopify/Customer/123'' wl s =
       updateCustomerMetafield R ''123'' wl s
   \<and> replace ''gid://shopify/Customer/123'' ''gid://shopify/Customer/'' [] = ''123''
   \<and> replace ''123'' ''gid://shopify/Customer/'' [] = ''123''"
proof -
  have bare: "\<not> startsWith ''123'' ''gid://''" by (simp add: startsWith_def)
  have clean: "\<not> str_includes ''123'' ''gid://shopify/Customer/''" by simp
  obtain x fin where rd: "getCustomerMetafield R cid (w, cs) = (x, fin)"
    by (cases "getCustomerMetafield R cid (w, cs)")
  from read_state [OF rd] rd
  have sent: "snd (getCustomerMetafield R cid (w, cs)) =
       (snd (post_getCustomer R (qualify cid) w), cs @ [GraphQL_getCustomer (qualify cid)])"
    by simp
  obtain y out where wr: "updateCustomerMetafield R cid wl (w, cs) = (y, out)"
    by (cases "updateCustomerMetafield R cid wl (w, cs)")
  from update_first_call [OF wr] wr
  have owner: "\<exists>more. snd (snd (updateCustomerMetafield R cid wl (w, cs))) =
         cs @ GraphQL_metafieldsSet
                \<lparr>in_ownerId = qualify cid, in_namespace = ''custom'',
                 in_key = ''wishlist_products'', in_value = JSON_stringify wl,
                 in_type = ''json''\<rparr> # more"
    by simp
  obtain z out' where fb: "updateCustomerMetafieldREST R cid wl (w, cs) = (z, out')"
    by (cases "updateCustomerMetafieldREST R cid wl (w, cs)")
  from rest_first_call [OF fb] fb
  have listed: "\<exists>more. snd (snd (updateCustomerMetafieldREST R cid wl (w, cs))) =
         cs @ REST_GET (replace cid ''gid://shopify/Customer/'' []) # more"
    by simp
  have stripped: "replace (''gid://shopify/Customer/'' @ cid) ''gid://shopify/Customer/'' [] = cid"
    using replace_prefix [of "''gid://shopify/Customer/''" cid "[]"] by simp
  have rule_bare: "\<not> startsWith cid ''gid://'' \<longrightarrow> qualify cid = ''gid://shopify/Customer/'' @ cid"
    by (simp add: qualify_def)
  have rule_full: "startsWith cid ''gid://'' \<longrightarrow> qualify cid = cid"
    by (simp add: qualify_def)
  have forms: "\<not> startsWith cid ''gid://'' \<longrightarrow>
        qualify (''gid://shopify/Customer/'' @ cid) = qualify cid
        \<and> replace (''gid://shopify/Customer/'' @ cid) ''gid://shopify/Customer/'' [] = cid
        \<and> getCustomerMetafield R (''gid://shopify/Customer/'' @ cid) s =
            getCustomerMetafield R cid s"
  proof (rule impI)
    assume b: "\<not> startsWith cid ''gid://''"
    show "qualify (''gid://shopify/Customer/'' @ cid) = qualify cid
        \<and> replace (''gid://shopify/Customer/'' @ cid) ''gid://shopify/Customer/'' [] = cid
        \<and> getCustomerMetafield R (''gid://shopify/Customer/'' @ cid) s =
            getCustomerMetafield R cid s"
      by (intro conjI, rule qualify_bare [OF b], rule stripped,
          rule read_same [OF b, symmetric])
  qed
  have r123: "getCustomerMetafield R ''gid://shopify/Customer/123'' s =
       getCustomerMetafield R ''123'' s"
    using read_same [OF bare, of R s] by simp
  have w123: "updateCustomerMetafield R ''gid://shopify/Customer/123'' wl s =
       updateCustomerMetafield R ''123'' wl s"
    using write_same [OF bare clean, of R wl s] by simp
  have c123: "replace ''gid://shopify/Customer/123'' ''gid://shopify/Customer/'' [] = ''123''"
    by simp
  have d123: "replace ''123'' ''gid://shopify/Customer/'' [] = ''123''"
    by simp
  show ?thesis
    by (intro conjI, rule rule_bare, rule rule_full, rule sent, rule owner, rule listed,
        rule forms, rule r123, rule w123, rule c123, rule d123)
qed

text \<open>Witness for C6: customer 456 and its qualified form on the in-memory upstream.\<close>

theorem customer_id_forms_address_same_wishlist_witness:
  "qualify ''456'' = ''gid://shopify/Customer/456''
   \<and> qualify ''gid://shopify/Customer/456'' = ''gid://shopify/Customer/456''
   \<and> snd (getCustomerMetafield shop_remote ''456'' (empty_shop, [])) =
       (empty_shop, [GraphQL_getCustomer ''gid://shopify/Customer/456''])
   \<and> getCustomerMetafield shop_remote (''gid://shopify/Customer/'' @ ''456'') (empty_shop, []) =
       getCustomerMetafield shop_remote ''456'' (empty_shop, [])"
proof -
  have bare: "\<not> startsWith ''456'' ''gid://''" by (simp add: startsWith_def)
  have full: "startsWith ''gid://shopify/Customer/456'' ''gid://''" by (simp add: startsWith_def)
  note short = customer_id_forms_address_same_wishlist [where cid = "''456''"
      and R = shop_remote and w = empty_shop and cs = "[]" and s = "(empty_shop, [])"
      and wl = "[]"]
  note long = customer_id_forms_address_same_wishlist
      [where cid = "''gid://shopify/Customer/456''" and R = shop_remote and w = empty_shop
       and cs = "[]" and s = "(empty_shop, [])" and wl = "[]"]
  from short [THEN conjunct1] bare
  have one: "qualify ''456'' = ''gid://shopify/Customer/456''" by simp
  from long [THEN conjunct2, THEN conjunct1] full
  have two: "qualify ''gid://shopify/Customer/456'' = ''gid://shopify/Customer/456''" by simp
  have asked: "snd (post_getCustomer shop_remote ''gid://shopify/Customer/456'' empty_shop) =
      empty_shop"
    by (simp add: shop_remote_def)
  from short [THEN conjunct2, THEN conjunct2, THEN conjunct1]
  have three: "snd (getCustomerMetafield shop_remote ''456'' (empty_shop, [])) =
       (empty_shop, [GraphQL_getCustomer ''gid://shopify/Customer/456''])"
    by (simp only: one asked append_Nil)
  from short [THEN conjunct2, THEN conjunct2, THEN conjunct2, THEN conjunct2, THEN conjunct2,
      THEN conjunct1] bare
  have four: "getCustomerMetafield shop_remote (''gid://shopify/Customer/'' @ ''456'')
                (empty_shop, []) =
              getCustomerMetafield shop_remote ''456'' (empty_shop, [])"
    by blast
  show ?thesis
    by (intro conjI, rule one, rule two, rule three, rule four)
qed






text \<open>
  \<^bold>\<open>C1\<close>. The code at a run where the mutation reports a user error and the first REST
  write is answered 500: the exception of the fallback does not reach the caller. The
  fallback is called again (a second GET and POST), that call succeeds, and the write
  returns normally.
\<close>

theorem failed_fallback_is_retried:
  "updateCustomerMetafield shop_remote ''123'' [sample_entry ''9'']
     (empty_shop\<lparr>user_errors := [''Access denied''], rest_failures := 1\<rparr>, []) =
     (Inr (),
      (empty_shop\<lparr>user_errors := [''Access denied''], rest_failures := 0,
                  stored := Some (JsonArray [sample_entry ''9''])\<rparr>,
       [GraphQL_metafieldsSet
          \<lparr>in_ownerId = ''gid://shopify/Customer/123'', in_namespace = ''custom'',
           in_key = ''wishlist_products'', in_value = JsonArray [sample_entry ''9''],
           in_type = ''json''\<rparr>,
        REST_GET ''123'',
        REST_POST ''123''
          \<lparr>out_namespace = ''custom'', out_key = ''wishlist_products'',
           out_value = JsonArray [sample_entry ''9''], out_type = ''json''\<rparr>,
        REST_GET ''123'',
        REST_POST ''123''
          \<lparr>out_namespace = ''custom'', out_key = ''wishlist_products'',
           out_value = JsonArray [sample_entry ''9''], out_type = ''json''\<rparr>]))"
  by (simp add: updateCustomerMetafield_def updateCustomerMetafieldREST_def fetch_GET_def
                fetch_send_def io_defs Let_def shop_remote_def empty_shop_def qualify_def
                startsWith_def JSON_stringify_def existing_id_def)

end
